theory Spec2Isabelle
  imports Complex_Main "HOL-Library.AList"
begin

section \<open>Python values\<close>

text \<open>
  The client is dynamically typed: an argument annotated \<open>Optional[float]\<close> may hold
  \<open>None\<close>, a bool, a number or a string, and the code tests it by truthiness.  The values
  the order methods and the JSON envelope handle are embedded in one datatype.  Python's
  \<open>int\<close> and \<open>float\<close> are both embedded as exact rationals: rounding of binary floating
  point is not modelled, a dictionary is an association list in insertion order.
\<close>

datatype pyval =
    PNone
  | PBool bool
  | PNum rat
  | PStr string
  | PList "pyval list"
  | PDict "(string \<times> pyval) list"

type_synonym dict = "(string \<times> pyval) list"

text \<open>Truthiness, as \<open>if x:\<close> and \<open>not x\<close> test it.\<close>

fun truthy :: "pyval \<Rightarrow> bool" where
  "truthy PNone = False"
| "truthy (PBool b) = b"
| "truthy (PNum r) = (r \<noteq> 0)"
| "truthy (PStr s) = (s \<noteq> [])"
| "truthy (PList xs) = (xs \<noteq> [])"
| "truthy (PDict kvs) = (kvs \<noteq> [])"

text \<open>The numeric reading of a value in a comparison or a division; \<open>None\<close> where Python
  raises \<open>TypeError\<close> (a bool is the number 0 or 1).\<close>

fun py_num :: "pyval \<Rightarrow> rat option" where
  "py_num (PNum r) = Some r"
| "py_num (PBool b) = Some (if b then 1 else 0)"
| "py_num _ = None"

text \<open>\<open>x in ("a", "b")\<close>: membership in a tuple of strings; only a string equals a string.\<close>

definition in_tuple :: "pyval \<Rightarrow> string list \<Rightarrow> bool" where
  "in_tuple v ss = (case v of PStr s \<Rightarrow> List.member ss s | _ \<Rightarrow> False)"

text \<open>\<open>d.get(k)\<close> and \<open>d[k] = v\<close> on a dictionary.\<close>

definition dict_get :: "dict \<Rightarrow> string \<Rightarrow> pyval" where
  "dict_get d k = (case map_of d k of None \<Rightarrow> PNone | Some v \<Rightarrow> v)"

definition dict_set :: "string \<Rightarrow> pyval \<Rightarrow> dict \<Rightarrow> dict" where
  "dict_set k v d = AList.update k v d"


section \<open>Exceptions\<close>

text \<open>
  The three exception classes of the package (their module is not part of the sources
  read here; they are taken to derive from \<open>Exception\<close> directly, so the handler for
  \<open>ValueError\<close> does not catch them), and the built-in exceptions the code can raise.
  The message texts are not modelled.
\<close>

record http_response =
  status_code :: int
  text_of :: string
  json_of :: "pyval option"

datatype error =
    OrderParameterValidationException
  | KucoinAPIException http_response
  | KucoinRequestException string
  | TypeError
  | KeyError
  | AttributeError
  | ZeroDivisionError

section \<open>validations.py\<close>

definition VALID_SIDE :: "string list" where
  "VALID_SIDE = [''buy'', ''sell'']"

definition VALID_STOP :: "string list" where
  "VALID_STOP = [''down'', ''up'']"

definition VALID_STOP_PRICE_TYPE :: "string list" where
  "VALID_STOP_PRICE_TYPE = [''TP'', ''MP'', ''IP'']"

definition VALID_TIME_IN_FORCE :: "string list" where
  "VALID_TIME_IN_FORCE = [''GTC'', ''IOC'']"

definition validate_side :: "pyval \<Rightarrow> error + unit" where
  "validate_side side =
     (if \<not> in_tuple side VALID_SIDE then Inl OrderParameterValidationException
      else Inr ())"

definition validate_stop :: "pyval \<Rightarrow> pyval \<Rightarrow> pyval \<Rightarrow> error + unit" where
  "validate_stop stop stop_price stop_price_type =
     (if \<not> truthy stop then Inr ()
      else if \<not> in_tuple stop VALID_STOP then Inl OrderParameterValidationException
      else if \<not> in_tuple stop_price_type VALID_STOP_PRICE_TYPE
        then Inl OrderParameterValidationException
      else if \<not> truthy stop_price then Inl OrderParameterValidationException
      else Inr ())"

definition validate_stop_loss_take_profit :: "pyval \<Rightarrow> pyval \<Rightarrow> pyval \<Rightarrow> error + unit" where
  "validate_stop_loss_take_profit stop stop_loss take_profit =
     (if truthy stop \<and> (truthy stop_loss \<or> truthy take_profit)
      then Inl OrderParameterValidationException
      else Inr ())"

definition validate_time_in_force :: "pyval \<Rightarrow> error + unit" where
  "validate_time_in_force time_in_force =
     (if \<not> truthy time_in_force then Inr ()
      else if \<not> in_tuple time_in_force VALID_TIME_IN_FORCE
        then Inl OrderParameterValidationException
      else Inr ())"

text \<open>The parameters in the order of the \<open>def\<close>: \<open>time_in_force\<close> first, \<open>post_only\<close>
  second.\<close>

definition validate_post_only :: "pyval \<Rightarrow> pyval \<Rightarrow> error + unit" where
  "validate_post_only time_in_force post_only =
     (if truthy post_only \<and> time_in_force \<noteq> PStr (VALID_TIME_IN_FORCE ! 0)
      then Inl OrderParameterValidationException
      else Inr ())"

definition validate_hidden_and_iceberg :: "pyval \<Rightarrow> pyval \<Rightarrow> error + unit" where
  "validate_hidden_and_iceberg hidden iceberg =
     (if truthy hidden \<and> truthy iceberg then Inl OrderParameterValidationException
      else Inr ())"

definition validate_iceberg :: "pyval \<Rightarrow> pyval \<Rightarrow> error + unit" where
  "validate_iceberg iceberg visible_size =
     (if truthy iceberg \<and> \<not> truthy visible_size then Inl OrderParameterValidationException
      else Inr ())"

definition validate_amount_size :: "pyval \<Rightarrow> pyval \<Rightarrow> error + unit" where
  "validate_amount_size amount sz =
     (if truthy amount \<and> truthy sz then Inl OrderParameterValidationException
      else Inr ())"

section \<open>common/utils.py\<close>

definition SIDE_MAPPING :: "(string \<times> string) list" where
  "SIDE_MAPPING = [(''buy'', ''sell''), (''sell'', ''buy'')]"

text \<open>A lookup in \<open>SIDE_MAPPING\<close> with a key that may be any value.\<close>

definition side_lookup :: "pyval \<Rightarrow> string option" where
  "side_lookup v = (case v of PStr s \<Rightarrow> map_of SIDE_MAPPING s | _ \<Rightarrow> None)"

section \<open>Strings\<close>

text \<open>\<open>str.upper\<close> and \<open>str.lower\<close> on the ASCII letters (symbols and sides are ASCII).\<close>

definition upper_char :: "char \<Rightarrow> char" where
  "upper_char c =
     (let n = (of_char c :: nat) in if 97 \<le> n \<and> n \<le> 122 then char_of (n - 32) else c)"

definition lower_char :: "char \<Rightarrow> char" where
  "lower_char c =
     (let n = (of_char c :: nat) in if 65 \<le> n \<and> n \<le> 90 then char_of (n + 32) else c)"

definition upper :: "string \<Rightarrow> string" where
  "upper s = map upper_char s"

definition lower :: "string \<Rightarrow> string" where
  "lower s = map lower_char s"

text \<open>\<open>str(n)\<close> of an integer: its decimal digits, with a minus sign when negative.\<close>

definition digit_char :: "nat \<Rightarrow> char" where
  "digit_char d = char_of (48 + d)"

fun str_nat :: "nat \<Rightarrow> string" where
  "str_nat n = (if n < 10 then [digit_char n] else str_nat (n div 10) @ [digit_char (n mod 10)])"

declare str_nat.simps [simp del]

definition str_int :: "int \<Rightarrow> string" where
  "str_int i = (if i < 0 then CHR ''-'' # str_nat (nat (- i)) else str_nat (nat i))"

definition startswith :: "string \<Rightarrow> string \<Rightarrow> bool" where
  "startswith s p = (take (length p) s = p)"

text \<open>\<open>p in s\<close> on two strings: \<open>p\<close> occurs in \<open>s\<close> as a substring.\<close>

fun is_substring :: "string \<Rightarrow> string \<Rightarrow> bool" where
  "is_substring p [] = (p = [])"
| "is_substring p (c # cs) = (startswith (c # cs) p \<or> is_substring p cs)"

section \<open>The JSON envelope: \<open>Client._handle_response\<close>\<close>

text \<open>\<open>k in res\<close> and \<open>res[k]\<close> for a string key \<open>k\<close> and any parsed JSON value \<open>res\<close>:
  a key test on a dictionary, an element test on a list, a substring test on a string,
  \<open>TypeError\<close> on a number, a bool or \<open>None\<close>; only a dictionary can be indexed by a
  string.\<close>

fun py_in :: "string \<Rightarrow> pyval \<Rightarrow> error + bool" where
  "py_in k (PDict d) = Inr (map_of d k \<noteq> None)"
| "py_in k (PList xs) = Inr (List.member xs (PStr k))"
| "py_in k (PStr s) = Inr (is_substring k s)"
| "py_in k _ = Inl TypeError"

fun py_getitem :: "pyval \<Rightarrow> string \<Rightarrow> error + pyval" where
  "py_getitem (PDict d) k = (case map_of d k of None \<Rightarrow> Inl KeyError | Some v \<Rightarrow> Inr v)"
| "py_getitem _ k = Inl TypeError"

text \<open>The three tests of the \<open>try\<close> block, each on the parsed body.\<close>

definition check_code :: "http_response \<Rightarrow> pyval \<Rightarrow> error + unit" where
  "check_code response res =
     (case py_in ''code'' res of
        Inl e \<Rightarrow> Inl e
      | Inr False \<Rightarrow> Inr ()
      | Inr True \<Rightarrow>
          (case py_getitem res ''code'' of
             Inl e \<Rightarrow> Inl e
           | Inr c \<Rightarrow> if c \<noteq> PStr ''200000'' then Inl (KucoinAPIException response) else Inr ()))"

definition check_success :: "http_response \<Rightarrow> pyval \<Rightarrow> error + unit" where
  "check_success response res =
     (case py_in ''success'' res of
        Inl e \<Rightarrow> Inl e
      | Inr False \<Rightarrow> Inr ()
      | Inr True \<Rightarrow>
          (case py_getitem res ''success'' of
             Inl e \<Rightarrow> Inl e
           | Inr c \<Rightarrow> if \<not> truthy c then Inl (KucoinAPIException response) else Inr ()))"

definition unwrap_data :: "pyval \<Rightarrow> error + pyval" where
  "unwrap_data res =
     (case py_in ''data'' res of
        Inl e \<Rightarrow> Inl e
      | Inr False \<Rightarrow> Inr res
      | Inr True \<Rightarrow> py_getitem res ''data'')"

text \<open>\<open>response.json()\<close> raises \<open>ValueError\<close> when \<open>json_of\<close> is \<open>None\<close>; nothing else in
  the \<open>try\<close> block raises a \<open>ValueError\<close>.\<close>

definition handle_response :: "http_response \<Rightarrow> error + pyval" where
  "handle_response response =
     (if \<not> startswith (str_int (status_code response)) ''2''
      then Inl (KucoinAPIException response)
      else
        (case json_of response of
           None \<Rightarrow> Inl (KucoinRequestException (text_of response))
         | Some res \<Rightarrow>
             (case check_code response res of
                Inl e \<Rightarrow> Inl e
              | Inr _ \<Rightarrow>
                  (case check_success response res of
                     Inl e \<Rightarrow> Inl e
                   | Inr _ \<Rightarrow> unwrap_data res))))"

section \<open>The client and its surroundings\<close>

text \<open>A method \<open>_name\<close> of the source is \<open>name\<close> here (\<open>_request\<close> is \<open>request\<close>,
  \<open>_create_order\<close> is \<open>create_order\<close>, \<open>_handle_response\<close> is \<open>handle_response\<close>).\<close>

text \<open>
  What the client calls and does not define is a parameter: the HMAC-SHA256 digest in
  base64, \<open>json.dumps\<close>, \<open>str\<close> of a value that is not a string, the clock, the random
  identifiers of \<open>uuid.uuid4\<close>, and the exchange, which answers a request knowing the
  requests that came before.  The exchange always answers: a failure of the HTTP library
  to deliver a response is not modelled.
\<close>

record http_request =
  req_method :: string
  req_url :: string
  req_data :: string
  req_headers :: "(string \<times> string) list"
  req_payload :: pyval

text \<open>\<open>req_payload\<close> is the dictionary that \<open>req_data\<close> serialises, kept to state what a
  submitted order holds.\<close>

record env =
  hmac_sha256_b64 :: "string \<Rightarrow> string \<Rightarrow> string"
  json_dumps :: "pyval \<Rightarrow> string"
  format_value :: "pyval \<Rightarrow> string"
  time_ms :: "nat \<Rightarrow> nat"
  uuid4_hex :: "nat \<Rightarrow> string"
  exchange :: "http_request list \<Rightarrow> http_request \<Rightarrow> http_response"

text \<open>
  The state a call can read and change: the credentials stored by \<open>__init__\<close>, the class
  attribute \<open>DEFAULT_HEADERS\<close> (one dictionary object, shared by every call), the requests
  issued so far in order, and how many identifiers were drawn.  The clock is read once
  per request, so its reading is indexed by the number of requests issued.
\<close>

record state =
  API_KEY :: string
  API_SECRET :: string
  API_PASSPHRASE :: string
  DEFAULT_HEADERS :: "(string \<times> string) list"
  sent :: "http_request list"
  uuids_drawn :: nat

definition API_URL :: string where
  "API_URL = ''https://api-futures.kucoin.com''"

definition API_V1 :: string where
  "API_V1 = ''v1''"

definition initial_headers :: "(string \<times> string) list" where
  "initial_headers = [(''accept'', ''application/json''), (''content-type'', ''application/json'')]"

text \<open>\<open>Client(api_key, api_secret, passphrase)\<close> in a fresh interpreter.\<close>

definition new_client :: "string \<Rightarrow> string \<Rightarrow> string \<Rightarrow> state" where
  "new_client api_key api_secret passphrase =
     \<lparr>API_KEY = api_key, API_SECRET = api_secret, API_PASSPHRASE = passphrase,
      DEFAULT_HEADERS = initial_headers, sent = [], uuids_drawn = 0\<rparr>"

definition flat_uuid :: "env \<Rightarrow> state \<Rightarrow> string \<times> state" where
  "flat_uuid E st = (uuid4_hex E (uuids_drawn st), st\<lparr>uuids_drawn := Suc (uuids_drawn st)\<rparr>)"

definition create_path :: "string \<Rightarrow> string option \<Rightarrow> string" where
  "create_path path api_version =
     ''/api/'' @ (case api_version of None \<Rightarrow> API_V1 | Some v \<Rightarrow> if v = [] then API_V1 else v)
       @ ''/'' @ path"

definition create_url :: "string \<Rightarrow> string" where
  "create_url path = API_URL @ path"

definition generate_signature :: "env \<Rightarrow> state \<Rightarrow> nat \<Rightarrow> string \<Rightarrow> string \<Rightarrow> string \<Rightarrow> string" where
  "generate_signature E st nonce method api_path data =
     hmac_sha256_b64 E (API_SECRET st) (str_nat nonce @ method @ api_path @ data)"

definition generate_passphrase :: "env \<Rightarrow> state \<Rightarrow> string" where
  "generate_passphrase E st = hmac_sha256_b64 E (API_SECRET st) (API_PASSPHRASE st)"

text \<open>The five assignments to \<open>headers\<close> in \<open>_request\<close>.\<close>

definition signed_headers ::
  "env \<Rightarrow> state \<Rightarrow> nat \<Rightarrow> string \<Rightarrow> string \<Rightarrow> string \<Rightarrow> (string \<times> string) list
    \<Rightarrow> (string \<times> string) list" where
  "signed_headers E st nonce method full_path data headers =
     AList.update ''KC-API-KEY-VERSION'' ''2''
       (AList.update ''KC-API-PASSPHRASE'' (generate_passphrase E st)
         (AList.update ''KC-API-KEY'' (API_KEY st)
           (AList.update ''KC-API-SIGN'' (generate_signature E st nonce method full_path data)
             (AList.update ''KC-API-TIMESTAMP'' (str_nat nonce) headers))))"

text \<open>
  \<open>_request(method, path, api_version, **kwargs)\<close>.  Without a \<open>headers\<close> keyword the
  local \<open>headers\<close> is the object \<open>DEFAULT_HEADERS\<close> itself, and the assignments write to
  it; with one they write to the caller's dictionary.  The state is returned also when
  the response is turned into an exception.
\<close>

definition build_request ::
  "env \<Rightarrow> string \<Rightarrow> string \<Rightarrow> string option \<Rightarrow> (string \<times> string) list \<Rightarrow> pyval \<Rightarrow> state
    \<Rightarrow> http_request" where
  "build_request E method path api_version headers data st =
     (let data_s = json_dumps E data;
          full_path = create_path path api_version;
          url = create_url full_path;
          nonce = time_ms E (length (sent st))
      in \<lparr>req_method = method, req_url = url, req_data = data_s,
          req_headers = signed_headers E st nonce method full_path data_s headers,
          req_payload = data\<rparr>)"

definition request ::
  "env \<Rightarrow> string \<Rightarrow> string \<Rightarrow> string option \<Rightarrow> (string \<times> string) list option \<Rightarrow> pyval option
    \<Rightarrow> state \<Rightarrow> (error + pyval) \<times> state" where
  "request E method path api_version headers_kw data_kw st =
     (let data = (case data_kw of None \<Rightarrow> PDict [] | Some d \<Rightarrow> d);
          headers = (case headers_kw of None \<Rightarrow> DEFAULT_HEADERS st | Some h \<Rightarrow> h);
          rq = build_request E method path api_version headers data st;
          response = exchange E (sent st) rq;
          st' = st\<lparr>DEFAULT_HEADERS :=
                      (case headers_kw of None \<Rightarrow> req_headers rq | Some h \<Rightarrow> DEFAULT_HEADERS st),
                    sent := sent st @ [rq]\<rparr>
      in (handle_response response, st'))"

definition py_str :: "env \<Rightarrow> pyval \<Rightarrow> string" where
  "py_str E v = (case v of PStr s \<Rightarrow> s | _ \<Rightarrow> format_value E v)"

definition contract_info :: "env \<Rightarrow> pyval \<Rightarrow> state \<Rightarrow> (error + pyval) \<times> state" where
  "contract_info E symbol st = request E ''GET'' (''contracts/'' @ py_str E symbol) None None None st"

section \<open>Sizing an order from a notional amount\<close>

text \<open>\<open>int(x)\<close> truncates towards zero; \<open>a // b\<close> is the floor of the quotient.\<close>

definition py_int :: "rat \<Rightarrow> int" where
  "py_int x = (if 0 \<le> x then \<lfloor>x\<rfloor> else \<lceil>x\<rceil>)"

definition floordiv :: "rat \<Rightarrow> pyval \<Rightarrow> error + pyval" where
  "floordiv a multiplier =
     (case py_num multiplier of
        None \<Rightarrow> Inl TypeError
      | Some m \<Rightarrow> if m = 0 then Inl ZeroDivisionError else Inr (PNum (of_int \<lfloor>a / m\<rfloor>)))"

text \<open>The branch of \<open>_create_order\<close> that computes \<open>size\<close> from \<open>amount\<close> and the symbol's
  \<open>multiplier\<close>; \<open>size\<close> is never \<open>None\<close> after it, so the bare \<open>raise\<close> is not reached.\<close>

definition amount_to_size :: "pyval \<Rightarrow> pyval \<Rightarrow> error + pyval" where
  "amount_to_size amount multiplier =
     (case py_num amount of
        None \<Rightarrow> Inl TypeError
      | Some a \<Rightarrow>
          if 1 \<le> a then
            (case py_num multiplier of
               None \<Rightarrow> Inl TypeError
             | Some m \<Rightarrow>
                 if m < 1 then
                   (if m = 0 then Inl ZeroDivisionError
                    else Inr (PNum (of_int (py_int (a * (1 / m))))))
                 else floordiv a multiplier)
          else floordiv a multiplier)"

text \<open>\<open>symbol_info.get("multiplier")\<close>: only a dictionary has \<open>get\<close>.\<close>

definition get_multiplier :: "pyval \<Rightarrow> error + pyval" where
  "get_multiplier symbol_info =
     (case symbol_info of PDict d \<Rightarrow> Inr (dict_get d ''multiplier'') | _ \<Rightarrow> Inl AttributeError)"

definition size_order :: "env \<Rightarrow> dict \<Rightarrow> pyval \<Rightarrow> state \<Rightarrow> (error + dict) \<times> state" where
  "size_order E order amount st =
     (case py_getitem (PDict order) ''symbol'' of
        Inl e \<Rightarrow> (Inl e, st)
      | Inr symbol \<Rightarrow>
          (case contract_info E symbol st of
             (Inl e, st') \<Rightarrow> (Inl e, st')
           | (Inr symbol_info, st') \<Rightarrow>
               (case get_multiplier symbol_info of
                  Inl e \<Rightarrow> (Inl e, st')
                | Inr multiplier \<Rightarrow>
                    (case amount_to_size amount multiplier of
                       Inl e \<Rightarrow> (Inl e, st')
                     | Inr sz \<Rightarrow> (Inr (dict_set ''size'' sz order), st')))))"

section \<open>\<open>Client._create_order\<close>\<close>

text \<open>The conditional orders: a copy of the order with six keys assigned, in the order
  of the source.  \<open>SIDE_MAPPING.get\<close> gives \<open>None\<close> for a key it lacks, \<open>SIDE_MAPPING[...]\<close>
  raises \<open>KeyError\<close>.\<close>

definition stop_loss_order :: "dict \<Rightarrow> string \<Rightarrow> pyval \<Rightarrow> error + dict" where
  "stop_loss_order order oid stop_loss_price =
     (case py_getitem (PDict order) ''side'' of
        Inl e \<Rightarrow> Inl e
      | Inr side \<Rightarrow>
          Inr (dict_set ''reduceOnly'' (PBool True)
                (dict_set ''stopPriceType'' (PStr ''TP'')
                  (dict_set ''stopPrice'' stop_loss_price
                    (dict_set ''stop'' (PStr (if side = PStr ''buy'' then ''down'' else ''up''))
                      (dict_set ''side''
                         (case side_lookup side of None \<Rightarrow> PNone | Some s \<Rightarrow> PStr s)
                        (dict_set ''clientOid'' (PStr oid) order)))))))"

definition take_profit_order :: "dict \<Rightarrow> string \<Rightarrow> pyval \<Rightarrow> error + dict" where
  "take_profit_order order oid take_profit_price =
     (case py_getitem (PDict order) ''side'' of
        Inl e \<Rightarrow> Inl e
      | Inr side \<Rightarrow>
          (case side_lookup side of
             None \<Rightarrow> Inl KeyError
           | Some s \<Rightarrow>
               Inr (dict_set ''reduceOnly'' (PBool True)
                     (dict_set ''stopPriceType'' (PStr ''TP'')
                       (dict_set ''stopPrice'' take_profit_price
                         (dict_set ''stop'' (PStr (if side = PStr ''buy'' then ''up'' else ''down''))
                           (dict_set ''side'' (PStr s)
                             (dict_set ''clientOid'' (PStr oid) order))))))))"

definition post_order :: "env \<Rightarrow> dict \<Rightarrow> state \<Rightarrow> (error + pyval) \<times> state" where
  "post_order E order st = request E ''POST'' ''orders'' None None (Some (PDict order)) st"

text \<open>The two \<open>if\<close> blocks after the primary submission.\<close>

definition submit_stop_loss :: "env \<Rightarrow> dict \<Rightarrow> pyval \<Rightarrow> state \<Rightarrow> (error + unit) \<times> state" where
  "submit_stop_loss E order stop_loss_price st =
     (if truthy stop_loss_price then
        (case flat_uuid E st of
           (oid, st1) \<Rightarrow>
             (case stop_loss_order order oid stop_loss_price of
                Inl e \<Rightarrow> (Inl e, st1)
              | Inr slo \<Rightarrow>
                  (case post_order E slo st1 of
                     (Inl e, st2) \<Rightarrow> (Inl e, st2)
                   | (Inr _, st2) \<Rightarrow> (Inr (), st2))))
      else (Inr (), st))"

definition submit_take_profit :: "env \<Rightarrow> dict \<Rightarrow> pyval \<Rightarrow> state \<Rightarrow> (error + unit) \<times> state" where
  "submit_take_profit E order take_profit_price st =
     (if truthy take_profit_price then
        (case flat_uuid E st of
           (oid, st1) \<Rightarrow>
             (case take_profit_order order oid take_profit_price of
                Inl e \<Rightarrow> (Inl e, st1)
              | Inr tpo \<Rightarrow>
                  (case post_order E tpo st1 of
                     (Inl e, st2) \<Rightarrow> (Inl e, st2)
                   | (Inr _, st2) \<Rightarrow> (Inr (), st2))))
      else (Inr (), st))"

text \<open>The four checks at the head of \<open>_create_order\<close>, in their order.\<close>

definition validate_order :: "dict \<Rightarrow> pyval \<Rightarrow> pyval \<Rightarrow> pyval \<Rightarrow> error + unit" where
  "validate_order order amount stop_loss_price take_profit_price =
     (case py_getitem (PDict order) ''side'' of
        Inl e \<Rightarrow> Inl e
      | Inr side \<Rightarrow>
          (case validate_side side of
             Inl e \<Rightarrow> Inl e
           | Inr _ \<Rightarrow>
               (case validate_stop (dict_get order ''stop'') (dict_get order ''stopPrice'')
                       (dict_get order ''stopPriceType'') of
                  Inl e \<Rightarrow> Inl e
                | Inr _ \<Rightarrow>
                    (case validate_stop_loss_take_profit (dict_get order ''stop'')
                            stop_loss_price take_profit_price of
                       Inl e \<Rightarrow> Inl e
                     | Inr _ \<Rightarrow> validate_amount_size amount (dict_get order ''size'')))))"

definition ensure_client_oid :: "env \<Rightarrow> dict \<Rightarrow> state \<Rightarrow> dict \<times> state" where
  "ensure_client_oid E order st =
     (if dict_get order ''clientOid'' = PNone then
        (case flat_uuid E st of (oid, st1) \<Rightarrow> (dict_set ''clientOid'' (PStr oid) order, st1))
      else (order, st))"

text \<open>\<open>_create_order\<close> before the primary submission: the checks, the client order id,
  the sizing.  It yields the order as it will be submitted.\<close>

definition prepare_order ::
  "env \<Rightarrow> dict \<Rightarrow> pyval \<Rightarrow> pyval \<Rightarrow> pyval \<Rightarrow> state \<Rightarrow> (error + dict) \<times> state" where
  "prepare_order E order amount stop_loss_price take_profit_price st =
     (case validate_order order amount stop_loss_price take_profit_price of
        Inl e \<Rightarrow> (Inl e, st)
      | Inr _ \<Rightarrow>
          (case ensure_client_oid E order st of
             (order1, st1) \<Rightarrow>
               if truthy amount then size_order E order1 amount st1 else (Inr order1, st1)))"

text \<open>The primary submission; its response is kept as the method's result.\<close>

definition submit_primary ::
  "env \<Rightarrow> dict \<Rightarrow> pyval \<Rightarrow> pyval \<Rightarrow> pyval \<Rightarrow> state \<Rightarrow> (error + dict \<times> pyval) \<times> state" where
  "submit_primary E order amount stop_loss_price take_profit_price st =
     (case prepare_order E order amount stop_loss_price take_profit_price st of
        (Inl e, st2) \<Rightarrow> (Inl e, st2)
      | (Inr order2, st2) \<Rightarrow>
          (case post_order E order2 st2 of
             (Inl e, st3) \<Rightarrow> (Inl e, st3)
           | (Inr new_order_response, st3) \<Rightarrow> (Inr (order2, new_order_response), st3)))"

definition create_order ::
  "env \<Rightarrow> dict \<Rightarrow> pyval \<Rightarrow> pyval \<Rightarrow> pyval \<Rightarrow> state \<Rightarrow> (error + pyval) \<times> state" where
  "create_order E order amount stop_loss_price take_profit_price st =
     (case submit_primary E order amount stop_loss_price take_profit_price st of
        (Inl e, st3) \<Rightarrow> (Inl e, st3)
      | (Inr (order2, new_order_response), st3) \<Rightarrow>
          (case submit_stop_loss E order2 stop_loss_price st3 of
             (Inl e, st4) \<Rightarrow> (Inl e, st4)
           | (Inr _, st4) \<Rightarrow>
               (case submit_take_profit E order2 take_profit_price st4 of
                  (Inl e, st5) \<Rightarrow> (Inl e, st5)
                | (Inr _, st5) \<Rightarrow> (Inr new_order_response, st5))))"

section \<open>The public order methods\<close>

text \<open>The keyword arguments of \<open>create_market_order\<close>, and those \<open>create_limit_order\<close>
  adds.  \<open>side\<close> and \<open>symbol\<close> are strings (the methods call \<open>lower\<close> and \<open>upper\<close> on
  them); every other argument is any value.\<close>

record market_args =
  side :: string
  symbol :: string
  leverage :: pyval
  amount :: pyval
  size_arg :: pyval
  client_oid :: pyval
  remark :: pyval
  stop :: pyval
  stop_price :: pyval
  stop_price_type :: pyval
  reduce_only :: pyval
  close_order :: pyval
  force_hold :: pyval
  stop_loss_price :: pyval
  take_profit_price :: pyval

record limit_args = market_args +
  price :: pyval
  time_in_force :: pyval
  post_only :: pyval
  hidden :: pyval
  iceberg :: pyval
  visible_size :: pyval

text \<open>\<open>if v: order[k] = v\<close>.\<close>

definition set_if :: "string \<Rightarrow> pyval \<Rightarrow> dict \<Rightarrow> dict" where
  "set_if k v order = (if truthy v then dict_set k v order else order)"

definition common_fields :: "'a market_args_scheme \<Rightarrow> dict \<Rightarrow> dict" where
  "common_fields a order =
     set_if ''forceHold'' (force_hold a)
       (set_if ''closeOrder'' (close_order a)
         (set_if ''reduceOnly'' (reduce_only a)
           (set_if ''stopPriceType'' (stop_price_type a)
             (set_if ''stopPrice'' (stop_price a)
               (set_if ''stop'' (stop a)
                 (set_if ''remark'' (remark a)
                   (set_if ''leverage'' (leverage a)
                     (set_if ''clientOid'' (client_oid a) order))))))))"

definition limit_order :: "limit_args \<Rightarrow> dict" where
  "limit_order a =
     (let order = [(''symbol'', PStr (upper (symbol a))), (''side'', PStr (lower (side a))),
                   (''type'', PStr ''limit''), (''price'', price a), (''size'', size_arg a)];
          order = set_if ''hidden'' (hidden a) (common_fields a order)
      in if truthy (iceberg a)
         then dict_set ''visible_size'' (visible_size a) (dict_set ''iceberg'' (iceberg a) order)
         else order)"


text \<open>The four checks at the head of \<open>create_limit_order\<close>.  The call site passes
  \<open>post_only\<close> first and \<open>time_in_force\<close> second to \<open>validate_post_only\<close>.\<close>

definition validate_limit :: "limit_args \<Rightarrow> error + unit" where
  "validate_limit a =
     (case validate_time_in_force (time_in_force a) of
        Inl e \<Rightarrow> Inl e
      | Inr _ \<Rightarrow>
          (case validate_post_only (post_only a) (time_in_force a) of
             Inl e \<Rightarrow> Inl e
           | Inr _ \<Rightarrow>
               (case validate_hidden_and_iceberg (hidden a) (iceberg a) of
                  Inl e \<Rightarrow> Inl e
                | Inr _ \<Rightarrow> validate_iceberg (iceberg a) (visible_size a))))"

definition create_limit_order :: "env \<Rightarrow> limit_args \<Rightarrow> state \<Rightarrow> (error + pyval) \<times> state" where
  "create_limit_order E a st =
     (case validate_limit a of
        Inl e \<Rightarrow> (Inl e, st)
      | Inr _ \<Rightarrow>
          create_order E (limit_order a) (amount a) (stop_loss_price a) (take_profit_price a) st)"


section \<open>Calls, clients and exchanges to evaluate the model on\<close>

text \<open>A call that passes the positional arguments only: every keyword argument has the
  default of the signature.\<close>

definition limit_call :: "string \<Rightarrow> pyval \<Rightarrow> string \<Rightarrow> pyval \<Rightarrow> limit_args" where
  "limit_call sd pr sy lev =
     \<lparr>side = sd, symbol = sy, leverage = lev, amount = PNone, size_arg = PNone,
      client_oid = PNone, remark = PNone, stop = PNone, stop_price = PNone,
      stop_price_type = PNone, reduce_only = PNone, close_order = PNone, force_hold = PNone,
      stop_loss_price = PNone, take_profit_price = PNone,
      price = pr, time_in_force = PNone, post_only = PNone, hidden = PNone, iceberg = PNone,
      visible_size = PStr []\<rparr>"


definition accepted :: http_response where
  "accepted =
     \<lparr>status_code = 200, text_of = ''ok'',
      json_of = Some (PDict [(''code'', PStr ''200000''),
                             (''data'', PDict [(''orderId'', PStr ''1''),
                                               (''multiplier'', PNum (1 / 10))])])\<rparr>"















section \<open>The response handler as the specification words it\<close>

text \<open>The three outcomes of the handler in the words of the specification, on a response
  whose body is a JSON object or does not parse: a status outside 200..299, a \<open>code\<close>
  other than the success sentinel or a falsy \<open>success\<close> is an API error; a body that does
  not parse under a 2xx status is a request error; the result is the \<open>data\<close> field when
  there is one and the whole body otherwise.\<close>

definition is_2xx :: "http_response \<Rightarrow> bool" where
  "is_2xx r = (200 \<le> status_code r \<and> status_code r < 300)"

definition spec_api_error :: "http_response \<Rightarrow> bool" where
  "spec_api_error r =
     (\<not> is_2xx r \<or>
      (case json_of r of
         Some (PDict d) \<Rightarrow>
           (case map_of d ''code'' of Some c \<Rightarrow> c \<noteq> PStr ''200000'' | None \<Rightarrow> False) \<or>
           (case map_of d ''success'' of Some s \<Rightarrow> \<not> truthy s | None \<Rightarrow> False)
       | _ \<Rightarrow> False))"

definition spec_request_error :: "http_response \<Rightarrow> bool" where
  "spec_request_error r = (is_2xx r \<and> json_of r = None)"

definition spec_result :: "dict \<Rightarrow> pyval" where
  "spec_result d = (case map_of d ''data'' of Some v \<Rightarrow> v | None \<Rightarrow> PDict d)"

section \<open>Post-only orders\<close>

text \<open>
  C1.  A limit order with \<open>post_only=True\<close> and \<open>time_in_force="GTC"\<close> should pass the
  post-only check, and one with \<open>post_only=True\<close> and another \<open>time_in_force\<close> should be
  rejected.  \<open>create_limit_order\<close> passes the two arguments to \<open>validate_post_only\<close> in the
  reverse of the order of its parameters, so the check reads \<open>time_in_force\<close> as the flag
  and compares \<open>post_only\<close> with \<open>"GTC"\<close>: the order with \<open>"GTC"\<close> is rejected before any
  request, and the order with no \<open>time_in_force\<close> passes all four checks of the method.
\<close>

theorem post_only_gtc_rejected:
  "create_limit_order E
     ((limit_call ''buy'' (PStr ''100'') ''XBTUSDTM'' (PStr ''5''))
        \<lparr>size_arg := PNum 1, time_in_force := PStr ''GTC'', post_only := PBool True\<rparr>) st
     = (Inl OrderParameterValidationException, st) \<and>
   validate_limit
     ((limit_call ''buy'' (PStr ''100'') ''XBTUSDTM'' (PStr ''5''))
        \<lparr>size_arg := PNum 1, post_only := PBool True\<rparr>) = Inr ()"
  by (simp add: create_limit_order_def validate_limit_def limit_call_def
      validate_time_in_force_def validate_post_only_def in_tuple_def VALID_TIME_IN_FORCE_def
      validate_hidden_and_iceberg_def validate_iceberg_def)

section \<open>From a notional amount to a contract size\<close>




section \<open>The response handler\<close>

lemma char_of_50: "char_of (50 :: nat) = CHR ''2''"
  by code_simp

lemma digit_char_2:
  assumes "d < 10"
  shows "(digit_char d = CHR ''2'') = (d = 2)"
proof -
  have "(char_of (48 + d) = (char_of (50 :: nat) :: char)) = ((48 + d) mod 256 = (50 :: nat) mod 256)"
    by (rule char_of_quasi_inj)
  also have "\<dots> = (d = 2)"
    using assms by auto
  finally show ?thesis
    by (simp add: digit_char_def char_of_50)
qed

text \<open>A status of three digits prints as three digits.\<close>

lemma str_nat_three_digits:
  assumes "100 \<le> n" and "n \<le> 999"
  shows "str_nat n = [digit_char (n div 100), digit_char (n div 10 mod 10), digit_char (n mod 10)]"
proof -
  have big: "\<not> n < 10" "\<not> n div 10 < 10" and small: "n div 10 div 10 < 10"
    using assms by simp_all
  have hundreds: "n div 10 div 10 = n div 100"
    by (simp add: div_mult2_eq)
  have "str_nat n = str_nat (n div 10) @ [digit_char (n mod 10)]"
    using big(1) by (subst str_nat.simps) simp
  also have "str_nat (n div 10) = str_nat (n div 10 div 10) @ [digit_char (n div 10 mod 10)]"
    using big(2) by (subst str_nat.simps) simp
  also have "str_nat (n div 10 div 10) = [digit_char (n div 10 div 10)]"
    using small by (subst str_nat.simps) simp
  finally show ?thesis
    by (simp add: hundreds)
qed

text \<open>On the status codes HTTP has, \<open>str(status_code).startswith('2')\<close> is the range
  200..299.\<close>

lemma startswith_2_iff:
  assumes "100 \<le> i" and "i \<le> 999"
  shows "startswith (str_int i) ''2'' = (200 \<le> i \<and> i < 300)"
proof -
  have n: "100 \<le> nat i" "nat i \<le> 999"
    using assms by simp_all
  have lt: "nat i div 100 < 10"
    using n by simp
  have "startswith (str_int i) ''2'' = (digit_char (nat i div 100) = CHR ''2'')"
    using assms by (simp add: str_int_def startswith_def str_nat_three_digits [OF n])
  also have "\<dots> = (nat i div 100 = 2)"
    by (rule digit_char_2 [OF lt])
  also have "\<dots> = (200 \<le> i \<and> i < 300)"
    using assms by auto
  finally show ?thesis .
qed

lemma handle_response_object:
  assumes "startswith (str_int (status_code r)) ''2''" and "json_of r = Some (PDict d)"
  shows "handle_response r =
    (if (case map_of d ''code'' of Some c \<Rightarrow> c \<noteq> PStr ''200000'' | None \<Rightarrow> False) \<or>
        (case map_of d ''success'' of Some s \<Rightarrow> \<not> truthy s | None \<Rightarrow> False)
     then Inl (KucoinAPIException r) else Inr (spec_result d))"
  using assms
  by (auto simp: handle_response_def check_code_def check_success_def unwrap_data_def
      spec_result_def split: option.splits)

text \<open>
  C6, as the code has it.  For a response with a three-digit status whose body is a JSON
  object or does not parse: the handler raises the API error exactly when the status is
  outside 200..299, or the object has a \<open>code\<close> other than \<open>"200000"\<close>, or it has a
  \<open>success\<close> that is falsy; it raises the request error exactly when the status is in
  200..299 and the body does not parse; otherwise it returns the \<open>data\<close> field when the
  object has one and the whole object when it has none.
\<close>

theorem handle_response_outcomes:
  assumes "100 \<le> status_code r" and "status_code r \<le> 999"
    and "json_of r = None \<or> (\<exists>d. json_of r = Some (PDict d))"
  shows "((\<exists>x. handle_response r = Inl (KucoinAPIException x)) = spec_api_error r) \<and>
         ((\<exists>t. handle_response r = Inl (KucoinRequestException t)) = spec_request_error r) \<and>
         (\<not> spec_api_error r \<and> \<not> spec_request_error r \<longrightarrow>
            (\<exists>d. json_of r = Some (PDict d) \<and> handle_response r = Inr (spec_result d)))"
proof (cases "is_2xx r")
  case False
  then have "handle_response r = Inl (KucoinAPIException r)"
    using startswith_2_iff [OF assms(1,2)] by (simp add: handle_response_def is_2xx_def)
  with False show ?thesis
    by (simp add: spec_api_error_def spec_request_error_def)
next
  case True
  then have sw: "startswith (str_int (status_code r)) ''2''"
    using startswith_2_iff [OF assms(1,2)] by (simp add: is_2xx_def)
  from assms(3) show ?thesis
  proof
    assume none: "json_of r = None"
    then have "handle_response r = Inl (KucoinRequestException (text_of r))"
      using sw by (simp add: handle_response_def)
    with True none show ?thesis
      by (simp add: spec_api_error_def spec_request_error_def)
  next
    assume "\<exists>d. json_of r = Some (PDict d)"
    then obtain d where d: "json_of r = Some (PDict d)"
      by blast
    show ?thesis
      using True d handle_response_object [OF sw d]
      by (auto simp: spec_api_error_def spec_request_error_def split: option.splits)
  qed
qed

text \<open>A response with code \<open>"200000"\<close> and a \<open>data\<close> field returns the \<open>data\<close> object only;
  a response with code \<open>"400001"\<close> raises the API error.\<close>

theorem handle_response_outcomes_witness:
  "100 \<le> status_code accepted \<and> status_code accepted \<le> 999 \<and>
   handle_response accepted =
     Inr (PDict [(''orderId'', PStr ''1''), (''multiplier'', PNum (1 / 10))]) \<and>
   (\<exists>x. handle_response
      \<lparr>status_code = 200, text_of = ''no'', json_of = Some (PDict [(''code'', PStr ''400001'')])\<rparr>
        = Inl (KucoinAPIException x))"
  using handle_response_outcomes [of accepted]
    handle_response_outcomes
      [of "\<lparr>status_code = 200, text_of = ''no'', json_of = Some (PDict [(''code'', PStr ''400001'')])\<rparr>"]
  by (simp add: accepted_def spec_api_error_def spec_request_error_def spec_result_def is_2xx_def)

text \<open>Three responses on which the outcomes differ from the specification's wording: a
  body that does not parse under status 500 raises the API error, not the request error;
  a \<open>success\<close> of \<open>null\<close>, which is not \<open>false\<close>, raises the API error; a body that is a
  JSON number raises \<open>TypeError\<close>, which is neither error and no result.\<close>

theorem handle_response_outcomes_counterexample:
  "handle_response \<lparr>status_code = 500, text_of = ''Bad Gateway'', json_of = None\<rparr>
     = Inl (KucoinAPIException \<lparr>status_code = 500, text_of = ''Bad Gateway'', json_of = None\<rparr>) \<and>
   handle_response
     \<lparr>status_code = 200, text_of = ''null'', json_of = Some (PDict [(''success'', PNone)])\<rparr>
     = Inl (KucoinAPIException
         \<lparr>status_code = 200, text_of = ''null'', json_of = Some (PDict [(''success'', PNone)])\<rparr>) \<and>
   handle_response \<lparr>status_code = 200, text_of = ''5'', json_of = Some (PNum 5)\<rparr> = Inl TypeError"
  by (simp add: handle_response_def startswith_2_iff check_code_def check_success_def
      unwrap_data_def)

section \<open>The default headers\<close>

text \<open>
  C8.  A request should leave the client's state as it was.  \<open>_request\<close> is called
  without a \<open>headers\<close> keyword, so its local \<open>headers\<close> is the class attribute
  \<open>DEFAULT_HEADERS\<close> itself and the five \<open>KC-API-*\<close> assignments are written into it: after
  the first request of a new client the default header set holds seven entries, among
  them the time stamp and the signature of that request.  The credentials are unchanged.
\<close>

theorem request_writes_default_headers:
  "DEFAULT_HEADERS (snd (request E method path v None d (new_client k s p))) =
     initial_headers @
       [(''KC-API-TIMESTAMP'', str_nat (time_ms E 0)),
        (''KC-API-SIGN'',
           hmac_sha256_b64 E s
             (str_nat (time_ms E 0) @ method @ create_path path v @
              json_dumps E (case d of None \<Rightarrow> PDict [] | Some x \<Rightarrow> x))),
        (''KC-API-KEY'', k),
        (''KC-API-PASSPHRASE'', hmac_sha256_b64 E s p),
        (''KC-API-KEY-VERSION'', ''2'')] \<and>
   DEFAULT_HEADERS (snd (request E method path v None d (new_client k s p)))
     \<noteq> DEFAULT_HEADERS (new_client k s p) \<and>
   API_KEY (snd (request E method path v None d (new_client k s p))) = k \<and>
   API_SECRET (snd (request E method path v None d (new_client k s p))) = s \<and>
   API_PASSPHRASE (snd (request E method path v None d (new_client k s p))) = p"
  by (simp add: request_def Let_def build_request_def signed_headers_def new_client_def
      initial_headers_def generate_signature_def generate_passphrase_def)

section \<open>Dictionaries and requests\<close>













section \<open>The order as prepared and submitted\<close>












section \<open>Evaluating calls\<close>

lemma str_nat_digit: "n < 10 \<Longrightarrow> str_nat n = [digit_char n]"
  by (subst str_nat.simps) simp







section \<open>The stop-loss order\<close>




section \<open>The take-profit order\<close>





section \<open>Validation comes before any request\<close>




















section \<open>The keys of the primary payload\<close>















section \<open>Zero is absent\<close>


















section \<open>Amount and size\<close>





















end
